theory Spec2Isabelle
  imports Complex_Main
begin

section \<open>Machine integers\<close>

text \<open>
  Sizes, indices, degrees and derivative orders are \<^verbatim>\<open>std::size_t\<close> (64 bits, unsigned),
  \<^verbatim>\<open>int\<close> (32 bits, signed) or Eigen's index type (64 bits, signed) in the source. A
  \<^verbatim>\<open>size_t\<close> is a natural number here, with the wrap-around of its difference and sum
  written out; an \<^verbatim>\<open>int\<close> is an integer, and the two casts between them are the
  two's-complement ones of every compiler the library is built with.
\<close>

definition size_t_sub :: "nat \<Rightarrow> nat \<Rightarrow> nat" where
  "size_t_sub a b = (if b \<le> a then a - b else 2 ^ 64 + a - b)"

definition size_t_add :: "nat \<Rightarrow> nat \<Rightarrow> nat" where
  "size_t_add a b = (a + b) mod 2 ^ 64"

definition int_cast :: "nat \<Rightarrow> int" where
  "int_cast n = (let r = int (n mod 2 ^ 32) in if r < 2 ^ 31 then r else r - 2 ^ 32)"

definition size_t_cast :: "int \<Rightarrow> nat" where
  "size_t_cast i = nat (i mod 2 ^ 64)"

section \<open>IEEE 754 double precision\<close>

text \<open>
  A \<^verbatim>\<open>double\<close> is a finite number, a negative zero, an infinity or a NaN. \<open>Fin x\<close> is the
  finite double of value \<open>x\<close>, with \<open>Fin 0\<close> the positive zero; the doubles among the
  \<open>Fin x\<close> are those that rounding leaves as they are (\<open>is_double\<close>).
\<close>

datatype double = Fin real | NegZero | PosInf | NegInf | NaN

text \<open>
  Rounding to nearest, ties to even, with 53 significant bits, exponents from \<open>-1022\<close> to
  \<open>1023\<close> and gradual underflow: \<open>ulp_exponent y\<close> is the exponent of the last bit of the
  doubles near \<open>y\<close>, \<open>round_magnitude y\<close> the multiple of that bit nearest to \<open>y > 0\<close>, and a
  rounded magnitude of \<open>2^1024\<close> or more is an overflow.
\<close>

definition round_ne :: "real \<Rightarrow> int" where
  "round_ne y =
     (let f = \<lfloor>y\<rfloor>; r = y - of_int f
      in if r < 1 / 2 then f else if 1 / 2 < r then f + 1 else if even f then f else f + 1)"

definition ulp_exponent :: "real \<Rightarrow> int" where
  "ulp_exponent y = max \<lfloor>log 2 y\<rfloor> (- 1022) - 52"

definition round_magnitude :: "real \<Rightarrow> real" where
  "round_magnitude y =
     of_int (round_ne (y / 2 powr of_int (ulp_exponent y))) * 2 powr of_int (ulp_exponent y)"

definition round_double :: "real \<Rightarrow> double" where
  "round_double x =
     (if x = 0 then Fin 0
      else
        (let r = round_magnitude \<bar>x\<bar>
         in if 2 ^ 1024 \<le> r then (if 0 < x then PosInf else NegInf)
            else if r = 0 then (if 0 < x then Fin 0 else NegZero)
            else Fin (if 0 < x then r else - r)))"

definition is_double :: "double \<Rightarrow> bool" where
  "is_double a = (case a of Fin x \<Rightarrow> round_double x = Fin x | _ \<Rightarrow> True)"

definition is_nan :: "double \<Rightarrow> bool" where
  "is_nan a = (a = NaN)"

definition is_inf :: "double \<Rightarrow> bool" where
  "is_inf a = (a = PosInf \<or> a = NegInf)"

definition is_finite :: "double \<Rightarrow> bool" where
  "is_finite a = (case a of Fin x \<Rightarrow> True | NegZero \<Rightarrow> True | _ \<Rightarrow> False)"

text \<open>The value of a finite double, its sign bit, and the zeros and infinities by sign.\<close>

definition val :: "double \<Rightarrow> real" where
  "val a = (case a of Fin x \<Rightarrow> x | _ \<Rightarrow> 0)"

definition sign_bit :: "double \<Rightarrow> bool" where
  "sign_bit a = (case a of Fin x \<Rightarrow> x < 0 | NegZero \<Rightarrow> True | NegInf \<Rightarrow> True | _ \<Rightarrow> False)"

definition is_zero :: "double \<Rightarrow> bool" where
  "is_zero a = (a = Fin 0 \<or> a = NegZero)"

definition signed_zero :: "bool \<Rightarrow> double" where
  "signed_zero s = (if s then NegZero else Fin 0)"

definition signed_inf :: "bool \<Rightarrow> double" where
  "signed_inf s = (if s then NegInf else PosInf)"

text \<open>
  The operations of IEEE 754 in the default rounding mode, as C++ compiles \<open>+\<close>, \<open>-\<close>, \<open>*\<close>,
  \<open>/\<close>, \<open><\<close> and the conversion of an unsigned integer on \<^verbatim>\<open>double\<close>, each rounded once.
\<close>

definition double_neg :: "double \<Rightarrow> double" where
  "double_neg a =
     (case a of
        Fin x \<Rightarrow> (if x = 0 then NegZero else Fin (- x))
      | NegZero \<Rightarrow> Fin 0
      | PosInf \<Rightarrow> NegInf
      | NegInf \<Rightarrow> PosInf
      | NaN \<Rightarrow> NaN)"

definition double_add :: "double \<Rightarrow> double \<Rightarrow> double" where
  "double_add a b =
     (if is_nan a \<or> is_nan b then NaN
      else if is_inf a then (if is_inf b \<and> a \<noteq> b then NaN else a)
      else if is_inf b then b
      else if is_zero a \<and> is_zero b then signed_zero (sign_bit a \<and> sign_bit b)
      else round_double (val a + val b))"

definition double_mul :: "double \<Rightarrow> double \<Rightarrow> double" where
  "double_mul a b =
     (if is_nan a \<or> is_nan b then NaN
      else if is_inf a \<or> is_inf b then
        (if is_zero a \<or> is_zero b then NaN else signed_inf (sign_bit a \<noteq> sign_bit b))
      else if is_zero a \<or> is_zero b then signed_zero (sign_bit a \<noteq> sign_bit b)
      else round_double (val a * val b))"

definition double_div :: "double \<Rightarrow> double \<Rightarrow> double" where
  "double_div a b =
     (if is_nan a \<or> is_nan b then NaN
      else if is_inf a then (if is_inf b then NaN else signed_inf (sign_bit a \<noteq> sign_bit b))
      else if is_inf b then signed_zero (sign_bit a \<noteq> sign_bit b)
      else if is_zero b then
        (if is_zero a then NaN else signed_inf (sign_bit a \<noteq> sign_bit b))
      else if is_zero a then signed_zero (sign_bit a \<noteq> sign_bit b)
      else round_double (val a / val b))"

definition double_less :: "double \<Rightarrow> double \<Rightarrow> bool" where
  "double_less a b =
     (if is_nan a \<or> is_nan b then False
      else if a = PosInf \<or> b = NegInf then False
      else if a = NegInf \<or> b = PosInf then True
      else val a < val b)"

definition double_less_eq :: "double \<Rightarrow> double \<Rightarrow> bool" where
  "double_less_eq a b =
     (if is_nan a \<or> is_nan b then False
      else if b = PosInf \<or> a = NegInf then True
      else if b = NegInf \<or> a = PosInf then False
      else val a \<le> val b)"

definition double_of_nat :: "nat \<Rightarrow> double" where
  "double_of_nat n = round_double (real n)"

instantiation double :: "{zero, one, plus, minus, uminus, times, inverse, ord}"
begin

definition zero_double :: double where
  "zero_double = Fin 0"

definition one_double :: double where
  "one_double = Fin 1"

definition plus_double :: "double \<Rightarrow> double \<Rightarrow> double" where
  "plus_double a b = double_add a b"

definition uminus_double :: "double \<Rightarrow> double" where
  "uminus_double a = double_neg a"

definition minus_double :: "double \<Rightarrow> double \<Rightarrow> double" where
  "minus_double a b = double_add a (double_neg b)"

definition times_double :: "double \<Rightarrow> double \<Rightarrow> double" where
  "times_double a b = double_mul a b"

definition divide_double :: "double \<Rightarrow> double \<Rightarrow> double" where
  "divide_double a b = double_div a b"

definition inverse_double :: "double \<Rightarrow> double" where
  "inverse_double a = double_div (Fin 1) a"

definition less_double :: "double \<Rightarrow> double \<Rightarrow> bool" where
  "less_double a b = double_less a b"

definition less_eq_double :: "double \<Rightarrow> double \<Rightarrow> bool" where
  "less_eq_double a b = double_less_eq a b"

instance ..

end

section \<open>Errors, vectors and matrices\<close>

text \<open>
  What a call can end in other than a value: the C++ exceptions that the modelled operations
  throw, with their messages; the failed assertion of Eigen when an index is out of range or
  the sizes of two operands differ (Eigen with its assertions enabled, the default build);
  and undefined behaviour of the language or its standard library.
\<close>

datatype exn =
    invalid_argument string
  | runtime_error string
  | eigen_assert
  | undefined_behaviour

text \<open>
  A dynamic Eigen vector is the list of its entries. A dynamic Eigen matrix is its number
  of rows, its number of columns and its entries \<open>coeff m i j\<close> (row \<open>i\<close>, column \<open>j\<close>);
  only the entries inside the bounds are ever read. The operations that Eigen takes entry
  by entry are those of the scalar type.
\<close>

record 'a matrix =
  rows :: nat
  cols :: nat
  coeff :: "nat \<Rightarrow> nat \<Rightarrow> 'a"

definition size_mat :: "'a matrix \<Rightarrow> nat" where
  "size_mat m = rows m * cols m"

definition Zero_mat :: "nat \<Rightarrow> nat \<Rightarrow> 'a::zero matrix" where
  "Zero_mat r c = \<lparr>rows = r, cols = c, coeff = (\<lambda>i j. 0)\<rparr>"

definition Identity_mat :: "nat \<Rightarrow> nat \<Rightarrow> 'a::{zero,one} matrix" where
  "Identity_mat r c = \<lparr>rows = r, cols = c, coeff = (\<lambda>i j. if i = j then 1 else 0)\<rparr>"

definition Zero_vec :: "nat \<Rightarrow> 'a::zero list" where
  "Zero_vec n = replicate n 0"

definition col :: "'a matrix \<Rightarrow> nat \<Rightarrow> exn + 'a list" where
  "col m j = (if j < cols m then Inr (map (\<lambda>i. coeff m i j) [0..<rows m]) else Inl eigen_assert)"

definition scale_vec :: "'a::times \<Rightarrow> 'a list \<Rightarrow> 'a list" where
  "scale_vec k v = map (\<lambda>x. k * x) v"

definition div_vec :: "'a::inverse list \<Rightarrow> 'a \<Rightarrow> 'a list" where
  "div_vec v k = map (\<lambda>x. x / k) v"

definition add_vec :: "'a::plus list \<Rightarrow> 'a list \<Rightarrow> exn + 'a list" where
  "add_vec a b = (if length a = length b then Inr (map2 (+) a b) else Inl eigen_assert)"

definition sub_vec :: "'a::minus list \<Rightarrow> 'a list \<Rightarrow> exn + 'a list" where
  "sub_vec a b = (if length a = length b then Inr (map2 (-) a b) else Inl eigen_assert)"

definition same_size :: "'a matrix \<Rightarrow> 'a matrix \<Rightarrow> bool" where
  "same_size a b = (rows a = rows b \<and> cols a = cols b)"

definition add_mat :: "'a::plus matrix \<Rightarrow> 'a matrix \<Rightarrow> exn + 'a matrix" where
  "add_mat a b =
     (if same_size a b then Inr (a\<lparr>coeff := (\<lambda>i j. coeff a i j + coeff b i j)\<rparr>)
      else Inl eigen_assert)"

definition sub_mat :: "'a::minus matrix \<Rightarrow> 'a matrix \<Rightarrow> exn + 'a matrix" where
  "sub_mat a b =
     (if same_size a b then Inr (a\<lparr>coeff := (\<lambda>i j. coeff a i j - coeff b i j)\<rparr>)
      else Inl eigen_assert)"

definition neg_mat :: "'a::uminus matrix \<Rightarrow> 'a matrix" where
  "neg_mat a = a\<lparr>coeff := (\<lambda>i j. - coeff a i j)\<rparr>"



text \<open>Eigen's \<^verbatim>\<open>norm()\<close>: the Euclidean norm of a vector, the Frobenius norm of a matrix.\<close>

definition norm_vec :: "real list \<Rightarrow> real" where
  "norm_vec v = sqrt (sum_list (map (\<lambda>x. x * x) v))"

definition norm_mat :: "real matrix \<Rightarrow> real" where
  "norm_mat m =
     sqrt (sum_list (map (\<lambda>j. sum_list (map (\<lambda>i. coeff m i j * coeff m i j) [0..<rows m]))
       [0..<cols m]))"

text \<open>\<^verbatim>\<open>Eigen::NumTraits<double>::dummy_precision()\<close>, the default threshold of \<^verbatim>\<open>isApprox\<close>.\<close>

definition dummy_precision :: real where
  "dummy_precision = 1 / 10 ^ 12"

section \<open>polynomial.h\<close>

text \<open>
  The attributes of \<^verbatim>\<open>polynomial\<close>: \<^verbatim>\<open>dim_\<close>, \<^verbatim>\<open>coefficients_\<close>, \<^verbatim>\<open>degree_\<close>, \<^verbatim>\<open>T_min_\<close> and
  \<^verbatim>\<open>T_max_\<close>. The coefficients are an \<^verbatim>\<open>Eigen::MatrixXd\<close> and the times are \<^verbatim>\<open>double\<close>: the
  arithmetic of this header is that of \<^typ>\<open>double\<close>. The template parameter \<^verbatim>\<open>Safe\<close> is the
  first argument of every operation.
\<close>

record polynomial =
  dim :: nat
  coefficients :: "double matrix"
  degree :: nat
  T_min :: double
  T_max :: double

text \<open>
  The empty constructor leaves \<^verbatim>\<open>degree_\<close> uninitialised: the value it holds is the
  argument \<open>d\<close>.
\<close>

definition polynomial_empty :: "nat \<Rightarrow> polynomial" where
  "polynomial_empty d =
     \<lparr>dim = 0, coefficients = \<lparr>rows = 0, cols = 0, coeff = (\<lambda>i j. 0)\<rparr>, degree = d,
      T_min = 0, T_max = 0\<rparr>"

text \<open>
  \<^verbatim>\<open>safe_check\<close> compares the number of columns, an Eigen index, with \<^verbatim>\<open>int(degree_ + 1)\<close>.
\<close>

definition safe_check :: "bool \<Rightarrow> polynomial \<Rightarrow> exn + polynomial" where
  "safe_check Safe p =
     (if Safe then
        (if T_min p > T_max p then Inl (invalid_argument ''Tmin should be inferior to Tmax'')
         else if int (cols (coefficients p)) \<noteq> int_cast (size_t_add (degree p) 1)
           then Inl (runtime_error ''Spline order and coefficients do not match'')
         else Inr p)
      else Inr p)"

text \<open>The constructor from a coefficient matrix.\<close>

definition polynomial_coefficients ::
  "bool \<Rightarrow> double matrix \<Rightarrow> double \<Rightarrow> double \<Rightarrow> exn + polynomial" where
  "polynomial_coefficients Safe coefficients0 min0 max0 =
     safe_check Safe
       \<lparr>dim = rows coefficients0, coefficients = coefficients0,
        degree = size_t_sub (cols coefficients0) 1, T_min = min0, T_max = max0\<rparr>"

text \<open>
  \<^verbatim>\<open>init_coeffs\<close> allocates a \<^verbatim>\<open>dim_\<close> by \<open>size\<close> matrix and assigns the points to its columns
  in turn, counting them in an \<^verbatim>\<open>int\<close>. It has no check of its own: a point whose size is not
  \<^verbatim>\<open>dim_\<close> fails Eigen's assertion on the assignment to the column, and the counter of
  \<open>2^31\<close> points or more overflows, which is undefined behaviour.
\<close>

definition init_coeffs :: "nat \<Rightarrow> double list list \<Rightarrow> exn + double matrix" where
  "init_coeffs dim0 pts =
     (if \<not> list_all (\<lambda>pt. length pt = dim0) (take (2 ^ 31) pts) then Inl eigen_assert
      else if 2 ^ 31 \<le> length pts then Inl undefined_behaviour
      else Inr \<lparr>rows = dim0, cols = length pts, coeff = (\<lambda>i j. pts ! j ! i)\<rparr>)"

text \<open>
  The constructor from a container of points (and the one from a pair of iterators, which
  has the same body). \<^verbatim>\<open>dim_\<close> is the size of the first point; reading it in an empty
  container is undefined behaviour.
\<close>

definition polynomial_points ::
  "bool \<Rightarrow> double list list \<Rightarrow> double \<Rightarrow> double \<Rightarrow> exn + polynomial" where
  "polynomial_points Safe pts min0 max0 =
     (case pts of
        [] \<Rightarrow> Inl undefined_behaviour
      | pt # _ \<Rightarrow>
          (case init_coeffs (length pt) pts of
             Inl e \<Rightarrow> Inl e
           | Inr c \<Rightarrow>
               safe_check Safe
                 \<lparr>dim = length pt, coefficients = c, degree = size_t_sub (cols c) 1,
                  T_min = min0, T_max = max0\<rparr>))"

text \<open>The constructor from the boundary condition C0.\<close>

definition polynomial_C0 ::
  "bool \<Rightarrow> double list \<Rightarrow> double list \<Rightarrow> double \<Rightarrow> double \<Rightarrow> exn + polynomial" where
  "polynomial_C0 Safe init end0 min0 max0 =
     (if length init \<noteq> length end0
      then Inl (invalid_argument ''init and end points must have the same dimensions.'')
      else
        (case sub_vec end0 init of
           Inl e \<Rightarrow> Inl e
         | Inr d \<Rightarrow>
             (case init_coeffs (length init) [init, div_vec d (max0 - min0)] of
                Inl e \<Rightarrow> Inl e
              | Inr c \<Rightarrow>
                  safe_check Safe
                    \<lparr>dim = length init, coefficients = c, degree = 1,
                     T_min = min0, T_max = max0\<rparr>)))"

text \<open>
  The constructors from the boundary conditions C1 and C2 build the 4 by 4 (6 by 6) matrix
  of the boundary conditions from \<open>T = max - min\<close>, invert it with Eigen's \<^verbatim>\<open>inverse()\<close>, and
  solve each dimension with the product of the inverse and the boundary values. Fixed-size
  matrices are lists of rows here. What Eigen and the C library compute is taken as given:
  \<open>solve0 m bc\<close> is \<^verbatim>\<open>m.inverse() * bc\<close>, and \<open>pow0 T n\<close> is \<^verbatim>\<open>pow(T, n)\<close>.
\<close>

definition solve_rows :: "nat \<Rightarrow> nat \<Rightarrow> (double list \<Rightarrow> double list) \<Rightarrow> (nat \<Rightarrow> double list) \<Rightarrow>
    double matrix" where
  "solve_rows dim0 n m_inv_times bc =
     \<lparr>rows = dim0, cols = n,
      coeff = (\<lambda>i j. if i < dim0 \<and> j < n then m_inv_times (bc i) ! j else 0)\<rparr>"

definition polynomial_C1 ::
  "(double list list \<Rightarrow> double list \<Rightarrow> double list) \<Rightarrow> bool \<Rightarrow> double list \<Rightarrow>
   double list \<Rightarrow> double list \<Rightarrow> double list \<Rightarrow> double \<Rightarrow> double \<Rightarrow> exn + polynomial" where
  "polynomial_C1 solve0 Safe init d_init end0 d_end min0 max0 =
     (if length init \<noteq> length end0
      then Inl (invalid_argument ''init and end points must have the same dimensions.'')
      else if length init \<noteq> length d_init
      then Inl (invalid_argument ''init and d_init points must have the same dimensions.'')
      else if length init \<noteq> length d_end
      then Inl (invalid_argument ''init and d_end points must have the same dimensions.'')
      else
        (let T = max0 - min0;
             m = [[1, 0, 0, 0],
                  [1, T, T * T, T * T * T],
                  [0, 1, 0, 0],
                  [0, 1, Fin 2 * T, Fin 3 * T * T]]
         in safe_check Safe
              \<lparr>dim = length init,
               coefficients =
                 solve_rows (length init) (size_t_add 3 1) (solve0 m)
                   (\<lambda>i. [init ! i, end0 ! i, d_init ! i, d_end ! i]),
               degree = 3, T_min = min0, T_max = max0\<rparr>))"

definition polynomial_C2 ::
  "(double \<Rightarrow> nat \<Rightarrow> double) \<Rightarrow> (double list list \<Rightarrow> double list \<Rightarrow> double list) \<Rightarrow> bool \<Rightarrow>
   double list \<Rightarrow> double list \<Rightarrow> double list \<Rightarrow> double list \<Rightarrow> double list \<Rightarrow> double list \<Rightarrow>
   double \<Rightarrow> double \<Rightarrow> exn + polynomial" where
  "polynomial_C2 pow0 solve0 Safe init d_init dd_init end0 d_end dd_end min0 max0 =
     (if length init \<noteq> length end0
      then Inl (invalid_argument ''init and end points must have the same dimensions.'')
      else if length init \<noteq> length d_init
      then Inl (invalid_argument ''init and d_init points must have the same dimensions.'')
      else if length init \<noteq> length d_end
      then Inl (invalid_argument ''init and d_end points must have the same dimensions.'')
      else if length init \<noteq> length dd_init
      then Inl (invalid_argument ''init and dd_init points must have the same dimensions.'')
      else if length init \<noteq> length dd_end
      then Inl (invalid_argument ''init and dd_end points must have the same dimensions.'')
      else
        (let T = max0 - min0;
             m = [[1, 0, 0, 0, 0, 0],
                  [1, T, T * T, pow0 T 3, pow0 T 4, pow0 T 5],
                  [0, 1, 0, 0, 0, 0],
                  [0, 1, Fin 2 * T, Fin 3 * T * T, Fin 4 * pow0 T 3, Fin 5 * pow0 T 4],
                  [0, 0, Fin 2, 0, 0, 0],
                  [0, 0, Fin 2, Fin 6 * T, Fin 12 * T * T, Fin 20 * pow0 T 3]]
         in safe_check Safe
              \<lparr>dim = length init,
               coefficients =
                 solve_rows (length init) (size_t_add 5 1) (solve0 m)
                   (\<lambda>i. [init ! i, end0 ! i, d_init ! i, d_end ! i, dd_init ! i, dd_end ! i]),
               degree = 5, T_min = min0, T_max = max0\<rparr>))"

text \<open>\<^verbatim>\<open>check_if_not_empty\<close>, as the error it throws, if any.\<close>

definition check_if_not_empty :: "polynomial \<Rightarrow> exn option" where
  "check_if_not_empty p =
     (if size_mat (coefficients p) = 0
      then Some (runtime_error
        ''Error in polynomial : there is no coefficients set / did you use empty constructor ?'')
      else None)"

text \<open>
  \<^verbatim>\<open>operator()\<close>: Horner's scheme. The loop variable \<open>i\<close> of the source, an \<^verbatim>\<open>int\<close>, runs from
  \<^verbatim>\<open>(int)(degree_ - 1)\<close> down to \<open>0\<close>. \<open>horner c dt n h\<close> is the loop at \<open>i = n - 1\<close>, with
  \<open>n = 0\<close> its exit; it is entered at \<open>n = (int)(degree_ - 1) + 1\<close> when that is positive and
  at its exit otherwise, as at degree \<open>0\<close>, where the difference wraps and its cast is \<open>-1\<close>.
\<close>

fun horner :: "double matrix \<Rightarrow> double \<Rightarrow> nat \<Rightarrow> double list \<Rightarrow> exn + double list" where
  "horner c dt 0 h = Inr h"
| "horner c dt (Suc i) h =
     (case col c i of
        Inl e \<Rightarrow> Inl e
      | Inr ci \<Rightarrow>
          (case add_vec (scale_vec dt h) ci of
             Inl e \<Rightarrow> Inl e
           | Inr h' \<Rightarrow> horner c dt i h'))"

definition evaluate :: "bool \<Rightarrow> polynomial \<Rightarrow> double \<Rightarrow> exn + double list" where
  "evaluate Safe p t =
     (case check_if_not_empty p of
        Some e \<Rightarrow> Inl e
      | None \<Rightarrow>
          (if (t < T_min p \<or> t > T_max p) \<and> Safe
           then Inl (invalid_argument
             ''error in polynomial : time t to evaluate should be in range [Tmin, Tmax] of the curve'')
           else
             (case col (coefficients p) (degree p) of
                Inl e \<Rightarrow> Inl e
              | Inr h \<Rightarrow>
                  horner (coefficients p) (t - T_min p)
                    (nat (int_cast (size_t_sub (degree p) 1) + 1)) h)))"

text \<open>
  \<^verbatim>\<open>fact(n, order)\<close> multiplies \<open>n - i\<close> for \<open>i < order\<close>, the difference taken in \<^verbatim>\<open>size_t\<close> and
  converted to \<^verbatim>\<open>double\<close>.
\<close>

definition fact_poly :: "nat \<Rightarrow> nat \<Rightarrow> double" where
  "fact_poly n order = fold (\<lambda>i res. res * double_of_nat (size_t_sub n i)) [0..<order] 1"

text \<open>
  \<^verbatim>\<open>derivate\<close>: the loop variable \<open>i\<close>, an \<^verbatim>\<open>int\<close>, runs from \<^verbatim>\<open>(int)(order)\<close> while it is below
  \<^verbatim>\<open>(int)(degree_ + 1)\<close>, with \<open>cdt\<close> multiplied by \<open>dt\<close> after each round. Column \<open>i\<close> is read
  at the \<^verbatim>\<open>int\<close>, which Eigen's assertion refuses when negative, and \<^verbatim>\<open>fact\<close> takes it as
  a \<^verbatim>\<open>size_t\<close>.
\<close>

definition col_int :: "'a matrix \<Rightarrow> int \<Rightarrow> exn + 'a list" where
  "col_int m i = (if 0 \<le> i then col m (nat i) else Inl eigen_assert)"

function derivate_loop ::
  "polynomial \<Rightarrow> double \<Rightarrow> nat \<Rightarrow> int \<Rightarrow> double \<Rightarrow> double list \<Rightarrow> exn + double list" where
  "derivate_loop p dt order i cdt currentPoint =
     (if i < int_cast (size_t_add (degree p) 1) then
        (case col_int (coefficients p) i of
           Inl e \<Rightarrow> Inl e
         | Inr ci \<Rightarrow>
             (case add_vec currentPoint
                     (map (\<lambda>x. cdt * x * fact_poly (size_t_cast i) order) ci) of
                Inl e \<Rightarrow> Inl e
              | Inr currentPoint' \<Rightarrow>
                  derivate_loop p dt order (i + 1) (cdt * dt) currentPoint'))
      else Inr currentPoint)"
  by pat_completeness auto
termination
  by (relation "measure (\<lambda>(p, dt, order, i, cdt, currentPoint).
        nat (int_cast (size_t_add (degree p) 1) - i))") auto

declare derivate_loop.simps [simp del]

definition derivate :: "bool \<Rightarrow> polynomial \<Rightarrow> double \<Rightarrow> nat \<Rightarrow> exn + double list" where
  "derivate Safe p t order =
     (case check_if_not_empty p of
        Some e \<Rightarrow> Inl e
      | None \<Rightarrow>
          (if (t < T_min p \<or> t > T_max p) \<and> Safe
           then Inl (invalid_argument
             ''error in polynomial : time t to evaluate derivative should be in range [Tmin, Tmax] of the curve'')
           else derivate_loop p (t - T_min p) order (int_cast order) 1 (Zero_vec (dim p))))"

text \<open>
  \<^verbatim>\<open>deriv_coeff\<close>. A matrix with no column makes the source ask Eigen for a matrix with
  \<open>-1\<close> columns, which fails its assertion.
\<close>

definition deriv_coeff :: "double matrix \<Rightarrow> exn + double matrix" where
  "deriv_coeff c =
     (if cols c = 1 then Inr (Zero_mat (rows c) 1)
      else if cols c = 0 then Inl eigen_assert
      else Inr \<lparr>rows = rows c, cols = cols c - 1,
                coeff = (\<lambda>r i. coeff c r (i + 1) * double_of_nat (i + 1))\<rparr>)"

fun compute_derivate :: "bool \<Rightarrow> polynomial \<Rightarrow> nat \<Rightarrow> exn + polynomial" where
  "compute_derivate Safe p 0 =
     (case check_if_not_empty p of Some e \<Rightarrow> Inl e | None \<Rightarrow> Inr p)"
| "compute_derivate Safe p (Suc order) =
     (case check_if_not_empty p of
        Some e \<Rightarrow> Inl e
      | None \<Rightarrow>
          (case deriv_coeff (coefficients p) of
             Inl e \<Rightarrow> Inl e
           | Inr coeff_derivated \<Rightarrow>
               (case polynomial_coefficients Safe coeff_derivated (T_min p) (T_max p) of
                  Inl e \<Rightarrow> Inl e
                | Inr deriv \<Rightarrow> compute_derivate Safe deriv order)))"

section \<open>linear_variable.h\<close>

text \<open>
  The attributes \<^verbatim>\<open>B_\<close>, \<^verbatim>\<open>c_\<close> and \<^verbatim>\<open>zero\<close> of \<^verbatim>\<open>linear_variable\<close>, and its three
  constructors. The class is a template over its scalar type \<^verbatim>\<open>Numeric\<close>; the scalar is a
  \<^typ>\<open>real\<close> here, and the statements about linear variables below compute with \<open>0\<close>, \<open>1\<close>
  and \<open>- 1\<close> only.
\<close>

record linear_variable =
  lv_B :: "real matrix"
  lv_c :: "real list"
  lv_zero :: bool

definition linear_variable_default :: linear_variable where
  "linear_variable_default = \<lparr>lv_B = Identity_mat 0 0, lv_c = Zero_vec 0, lv_zero = True\<rparr>"

definition linear_variable_constant :: "real list \<Rightarrow> linear_variable" where
  "linear_variable_constant c0 =
     \<lparr>lv_B = Zero_mat (length c0) (length c0), lv_c = c0, lv_zero = False\<rparr>"

definition linear_variable_mixed :: "real matrix \<Rightarrow> real list \<Rightarrow> linear_variable" where
  "linear_variable_mixed B0 c0 = \<lparr>lv_B = B0, lv_c = c0, lv_zero = False\<rparr>"

definition isZero :: "linear_variable \<Rightarrow> bool" where
  "isZero w = lv_zero w"

text \<open>
  The compound assignments, as functions from the old value of \<^verbatim>\<open>*this\<close> to the new one.
  \<^verbatim>\<open>B_ = w1.B_\<close> resizes \<^verbatim>\<open>B_\<close>; \<^verbatim>\<open>B_ += w1.B_\<close> and \<^verbatim>\<open>c_ += w1.c_\<close> need operands of one size.
\<close>

definition plus_assign :: "linear_variable \<Rightarrow> linear_variable \<Rightarrow> exn + linear_variable" where
  "plus_assign this w1 =
     (if isZero w1 then Inr this
      else
        (case (if isZero this then Inr (this\<lparr>lv_B := lv_B w1, lv_zero := isZero w1\<rparr>)
               else (case add_mat (lv_B this) (lv_B w1) of
                       Inl e \<Rightarrow> Inl e
                     | Inr b \<Rightarrow> Inr (this\<lparr>lv_B := b\<rparr>))) of
           Inl e \<Rightarrow> Inl e
         | Inr this' \<Rightarrow>
             (case add_vec (lv_c this') (lv_c w1) of
                Inl e \<Rightarrow> Inl e
              | Inr c' \<Rightarrow> Inr (this'\<lparr>lv_c := c'\<rparr>))))"

definition minus_assign :: "linear_variable \<Rightarrow> linear_variable \<Rightarrow> exn + linear_variable" where
  "minus_assign this w1 =
     (if isZero w1 then Inr this
      else
        (case (if isZero this then Inr (this\<lparr>lv_B := neg_mat (lv_B w1), lv_zero := isZero w1\<rparr>)
               else (case sub_mat (lv_B this) (lv_B w1) of
                       Inl e \<Rightarrow> Inl e
                     | Inr b \<Rightarrow> Inr (this\<lparr>lv_B := b\<rparr>))) of
           Inl e \<Rightarrow> Inl e
         | Inr this' \<Rightarrow>
             (case sub_vec (lv_c this') (lv_c w1) of
                Inl e \<Rightarrow> Inl e
              | Inr c' \<Rightarrow> Inr (this'\<lparr>lv_c := c'\<rparr>))))"



text \<open>The static \<^verbatim>\<open>Zero(dim)\<close>, whose argument defaults to \<open>0\<close>.\<close>

definition linear_variable_Zero :: "nat \<Rightarrow> linear_variable" where
  "linear_variable_Zero dim0 = linear_variable_mixed (Identity_mat dim0 dim0) (Zero_vec dim0)"

definition size_lv :: "linear_variable \<Rightarrow> nat" where
  "size_lv w = (if lv_zero w then 0 else max (cols (lv_B w)) (length (lv_c w)))"

definition norm_lv :: "linear_variable \<Rightarrow> real" where
  "norm_lv w = (if isZero w then 0 else norm_mat (lv_B w) + norm_vec (lv_c w))"

text \<open>The free operators: each copies its left operand with the mixed constructor.\<close>

definition operator_plus :: "linear_variable \<Rightarrow> linear_variable \<Rightarrow> exn + linear_variable" where
  "operator_plus w1 w2 = plus_assign (linear_variable_mixed (lv_B w1) (lv_c w1)) w2"

definition operator_minus :: "linear_variable \<Rightarrow> linear_variable \<Rightarrow> exn + linear_variable" where
  "operator_minus w1 w2 = minus_assign (linear_variable_mixed (lv_B w1) (lv_c w1)) w2"




definition isApprox :: "linear_variable \<Rightarrow> linear_variable \<Rightarrow> real \<Rightarrow> exn + bool" where
  "isApprox this other prec =
     (case operator_minus this other of
        Inl e \<Rightarrow> Inl e
      | Inr d \<Rightarrow> Inr (norm_lv d < prec))"


section \<open>Predicates of the statements\<close>

text \<open>
  What every constructor of \<^verbatim>\<open>polynomial\<close> but the empty one establishes, and what
  \<^verbatim>\<open>compute_derivate\<close> keeps: \<^verbatim>\<open>dim_\<close> is the number of rows of \<^verbatim>\<open>coefficients_\<close>, \<^verbatim>\<open>degree_\<close>
  is one less than its number of columns and fits an \<^verbatim>\<open>int\<close>, and, in safe mode, \<^verbatim>\<open>T_min_\<close>
  is not above \<^verbatim>\<open>T_max_\<close>.
\<close>

definition polynomial_inv :: "bool \<Rightarrow> polynomial \<Rightarrow> bool" where
  "polynomial_inv Safe p =
     (dim p = rows (coefficients p) \<and> cols (coefficients p) = degree p + 1 \<and>
      degree p < 2 ^ 31 \<and> (Safe \<longrightarrow> \<not> T_min p > T_max p))"

definition non_empty :: "polynomial \<Rightarrow> bool" where
  "non_empty p = (size_mat (coefficients p) \<noteq> 0)"


text \<open>The curve that one round of \<^verbatim>\<open>compute_derivate\<close> recurses on.\<close>

definition deriv_poly :: "polynomial \<Rightarrow> polynomial" where
  "deriv_poly p =
     \<lparr>dim = rows (coefficients p),
      coefficients =
        (if cols (coefficients p) = 1 then Zero_mat (rows (coefficients p)) 1
         else \<lparr>rows = rows (coefficients p), cols = cols (coefficients p) - 1,
               coeff = (\<lambda>r i. coeff (coefficients p) r (i + 1) * double_of_nat (i + 1))\<rparr>),
      degree = degree p - 1, T_min = T_min p, T_max = T_max p\<rparr>"

text \<open>
  A curve of dimension 2 and degree 2 on \<open>[0, 2]\<close>, with the coefficient columns
  \<open>(1, 2)\<close>, \<open>(3, 4)\<close> and \<open>(5, 6)\<close>.
\<close>

definition example_curve :: polynomial where
  "example_curve =
     \<lparr>dim = 2,
      coefficients =
        \<lparr>rows = 2, cols = 3,
         coeff = (\<lambda>i j. [[Fin 1, Fin 2], [Fin 3, Fin 4], [Fin 5, Fin 6]] ! j ! i)\<rparr>,
      degree = 2, T_min = Fin 0, T_max = Fin 2\<rparr>"

text \<open>The constant zero curve of dimension \<open>r\<close> on \<open>[a, b]\<close>: one column, the zero vector.\<close>

definition zero_curve :: "nat \<Rightarrow> double \<Rightarrow> double \<Rightarrow> polynomial" where
  "zero_curve r a b = \<lparr>dim = r, coefficients = Zero_mat r 1, degree = 0, T_min = a, T_max = b\<rparr>"

text \<open>
  The curve of degree 1 with the coefficient columns \<open>a\<close> and \<open>b\<close> on \<open>[lo, hi]\<close>: what the
  constructor from the boundary condition C0 assembles.
\<close>

definition linear_curve :: "double list \<Rightarrow> double list \<Rightarrow> double \<Rightarrow> double \<Rightarrow> polynomial" where
  "linear_curve a b lo hi =
     \<lparr>dim = length a,
      coefficients = \<lparr>rows = length a, cols = Suc (Suc 0), coeff = (\<lambda>i j. [a, b] ! j ! i)\<rparr>,
      degree = Suc 0, T_min = lo, T_max = hi\<rparr>"

text \<open>\<^verbatim>\<open>isApprox\<close> called on the result of a free operator: \<^verbatim>\<open>(w1 + w2).isApprox(other, prec)\<close>.\<close>

definition isApprox_of :: "exn + linear_variable \<Rightarrow> linear_variable \<Rightarrow> real \<Rightarrow> exn + bool" where
  "isApprox_of r other prec =
     (case r of Inl e \<Rightarrow> Inl e | Inr this \<Rightarrow> isApprox this other prec)"

section \<open>Machine integers and comparisons of doubles\<close>

lemma size_t_add_small: "a < 2 ^ 31 \<Longrightarrow> size_t_add a (Suc 0) = Suc a"
  by (simp add: size_t_add_def)

lemma int_cast_small: "n < 2 ^ 31 \<Longrightarrow> int_cast n = int n"
  by (simp add: int_cast_def Let_def)

lemma int_cast_minus_one: "int_cast (size_t_sub 0 (Suc 0)) = - 1"
  by (simp add: int_cast_def size_t_sub_def Let_def)


lemma double_le_not_less: "(a::double) \<le> b \<Longrightarrow> \<not> b < a"
  by (auto simp add: less_eq_double_def less_double_def double_less_eq_def double_less_def
      is_nan_def split: if_splits)

lemma double_less_irrefl: "\<not> (a::double) < a"
  by (simp add: less_double_def double_less_def)

lemma val_simps [simp]:
  "val (Fin x) = x" "val NegZero = 0" "val PosInf = 0" "val NegInf = 0" "val NaN = 0"
  by (simp_all add: val_def)

lemma is_nan_simps [simp]:
  "\<not> is_nan (Fin x)" "\<not> is_nan NegZero" "\<not> is_nan PosInf" "\<not> is_nan NegInf" "is_nan NaN"
  by (simp_all add: is_nan_def)

lemma is_inf_simps [simp]:
  "\<not> is_inf (Fin x)" "\<not> is_inf NegZero" "is_inf PosInf" "is_inf NegInf" "\<not> is_inf NaN"
  by (simp_all add: is_inf_def)

lemma is_finite_simps [simp]:
  "is_finite (Fin x)" "is_finite NegZero" "\<not> is_finite PosInf" "\<not> is_finite NegInf"
  "\<not> is_finite NaN"
  by (simp_all add: is_finite_def)

lemma is_zero_simps [simp]:
  "is_zero (Fin x) = (x = 0)" "is_zero NegZero" "\<not> is_zero PosInf" "\<not> is_zero NegInf"
  "\<not> is_zero NaN"
  by (simp_all add: is_zero_def)

lemma sign_bit_simps [simp]:
  "sign_bit (Fin x) = (x < 0)" "sign_bit NegZero" "\<not> sign_bit PosInf" "sign_bit NegInf"
  "\<not> sign_bit NaN"
  by (simp_all add: sign_bit_def)

lemma is_finite_cases: "is_finite a \<longleftrightarrow> \<not> is_nan a \<and> \<not> is_inf a"
  by (cases a) simp_all

lemma less_Fin [simp]: "Fin x < Fin y \<longleftrightarrow> x < y"
  by (simp add: less_double_def double_less_def)

lemma less_eq_Fin [simp]: "Fin x \<le> Fin y \<longleftrightarrow> x \<le> y"
  by (simp add: less_eq_double_def double_less_eq_def)

section \<open>Rounding\<close>

lemma round_ne_of_int [simp]: "round_ne (of_int k) = k"
  by (simp add: round_ne_def)

lemma round_ne_error: "\<bar>of_int (round_ne y) - y\<bar> \<le> 1 / 2"
  unfolding round_ne_def Let_def
  by (auto simp add: abs_if) linarith+

lemma ulp_exponent_le:
  assumes "0 < y" "y < 2 powr of_int (k + 53)" "- 1074 \<le> k"
  shows "ulp_exponent y \<le> k"
proof -
  have "log 2 y < of_int (k + 53)"
    using assms(1,2) by (simp only: log_less_iff[of 2 y] one_less_numeral_iff semiring_norm)
  then have "\<lfloor>log 2 y\<rfloor> < k + 53"
    by (simp only: floor_less_iff)
  then show ?thesis
    using assms(3) by (simp add: ulp_exponent_def)
qed

lemma two_powr_53: "(2::real) powr of_int 53 = of_int (2 ^ 53)"
  by simp

lemma round_magnitude_exact:
  assumes "0 < m" "m < 2 ^ 53" "- 1074 \<le> k"
  shows "round_magnitude (of_int m * 2 powr of_int k) = of_int m * 2 powr of_int k"
proof -
  define y :: real where "y = of_int m * 2 powr of_int k"
  define e where "e = ulp_exponent y"
  have y: "0 < y" using assms(1) by (simp add: y_def)
  have "(of_int m :: real) < of_int (2 ^ 53)"
    using assms(2) by (simp only: of_int_less_iff)
  then have "(of_int m :: real) < 2 powr of_int 53"
    by (simp only: two_powr_53)
  then have "y < 2 powr of_int 53 * 2 powr of_int k"
    unfolding y_def by (intro mult_strict_right_mono) simp_all
  then have "y < 2 powr of_int (k + 53)"
    by (simp only: powr_add[symmetric] of_int_add add.commute)
  then have e: "e \<le> k"
    unfolding e_def using y assms(3) by (intro ulp_exponent_le)
  then obtain n where n: "k = e + int n"
    by (metis zle_iff_zadd)
  have p: "2 powr of_int k = (2::real) ^ n * 2 powr of_int e"
    by (simp add: n powr_add powr_realpow)
  have "y / 2 powr of_int e = of_int (m * 2 ^ n)"
    by (simp add: y_def p)
  then have "round_magnitude y = of_int (m * 2 ^ n) * 2 powr of_int e"
    unfolding round_magnitude_def e_def[symmetric] by (simp only: round_ne_of_int)
  also have "\<dots> = y"
    by (simp add: y_def p)
  finally show ?thesis
    by (simp only: y_def)
qed


lemma round_double_exact_pos:
  assumes "0 < m" "m < 2 ^ 53" "- 1074 \<le> k" "of_int m * 2 powr of_int k < (2::real) ^ 1024"
  shows "round_double (of_int m * 2 powr of_int k) = Fin (of_int m * 2 powr of_int k)"
proof -
  define y :: real where "y = of_int m * 2 powr of_int k"
  have y: "0 < y" using assms(1) by (simp add: y_def)
  have r: "round_magnitude y = y"
    unfolding y_def using assms(1-3) by (rule round_magnitude_exact)
  have "round_double y = Fin y"
    using y assms(4) by (simp add: round_double_def r y_def[symmetric])
  then show ?thesis by (simp only: y_def)
qed

lemma round_double_exact_neg:
  assumes "0 < m" "m < 2 ^ 53" "- 1074 \<le> k" "of_int m * 2 powr of_int k < (2::real) ^ 1024"
  shows "round_double (- (of_int m * 2 powr of_int k)) = Fin (- (of_int m * 2 powr of_int k))"
proof -
  define y :: real where "y = of_int m * 2 powr of_int k"
  have y: "0 < y" using assms(1) by (simp add: y_def)
  have r: "round_magnitude y = y"
    unfolding y_def using assms(1-3) by (rule round_magnitude_exact)
  have "round_double (- y) = Fin (- y)"
    using y assms(4) by (simp add: round_double_def r y_def[symmetric])
  then show ?thesis by (simp only: y_def)
qed

lemma round_double_of_nat: "n < 2 ^ 53 \<Longrightarrow> round_double (real n) = Fin (real n)"
proof (cases "n = 0")
  case True
  then show ?thesis by (simp add: round_double_def)
next
  case False
  assume n: "n < 2 ^ 53"
  have b: "real n < 2 ^ 1024"
  proof -
    have "real n < real (2 ^ 53)" using n by (simp only: of_nat_less_iff)
    also have "\<dots> \<le> 2 ^ 1024" by simp
    finally show ?thesis .
  qed
  have "int n < 2 ^ 53" using n by (metis of_nat_less_iff of_nat_numeral of_nat_power)
  with False b have "round_double (of_int (int n) * 2 powr of_int 0) =
      Fin (of_int (int n) * 2 powr of_int 0)"
    by (intro round_double_exact_pos) simp_all
  then show ?thesis by simp
qed

lemma round_double_numeral [simp]:
  "numeral w < (2::nat) ^ 53 \<Longrightarrow> round_double (numeral w) = Fin (numeral w)"
  using round_double_of_nat[of "numeral w"] by simp

lemma round_double_neg_numeral [simp]:
  "numeral w < (2::nat) ^ 53 \<Longrightarrow> round_double (- numeral w) = Fin (- numeral w)"
proof -
  assume n: "numeral w < (2::nat) ^ 53"
  have b: "real (numeral w) < 2 ^ 1024"
  proof -
    have "real (numeral w) < real (2 ^ 53)" using n by (simp only: of_nat_less_iff)
    also have "\<dots> \<le> 2 ^ 1024" by simp
    finally show ?thesis .
  qed
  have "int (numeral w) < 2 ^ 53" using n by (metis of_nat_less_iff of_nat_numeral of_nat_power)
  with b have "round_double (- (of_int (numeral w) * 2 powr of_int 0)) =
      Fin (- (of_int (numeral w) * 2 powr of_int 0))"
    by (intro round_double_exact_neg) simp_all
  then show ?thesis by simp
qed

lemma round_double_zero_one [simp]: "round_double 0 = Fin 0" "round_double 1 = Fin 1"
  "round_double (- 1) = Fin (- 1)"
  using round_double_of_nat[of 0] round_double_of_nat[of 1]
    round_double_exact_neg[of 1 0] by simp_all

lemmas double_ops =
  plus_double_def minus_double_def times_double_def divide_double_def uminus_double_def
  zero_double_def one_double_def double_add_def double_neg_def double_mul_def double_div_def
  signed_zero_def signed_inf_def

lemma ulp_exponent_normal:
  assumes "2 powr of_int e \<le> x" "x < 2 powr of_int (e + 1)" "- 1022 \<le> e"
  shows "ulp_exponent x = e - 52"
proof -
  have x: "0 < x"
    using assms(1) by (rule less_le_trans[rotated]) simp
  have "of_int e \<le> log 2 x"
    using assms(1) x by (simp add: le_log_iff)
  moreover have "log 2 x < of_int (e + 1)"
    using assms(2) x by (simp only: log_less_iff[of 2 x] one_less_numeral_iff semiring_norm)
  ultimately have "\<lfloor>log 2 x\<rfloor> = e"
    by (intro floor_unique) simp_all
  then show ?thesis
    using assms(3) by (simp add: ulp_exponent_def)
qed

lemma round_double_normal:
  assumes "2 powr of_int e \<le> x" "x < 2 powr of_int (e + 1)" "- 1022 \<le> e"
  shows "round_double x =
          (let r = of_int (round_ne (x / 2 powr of_int (e - 52))) * 2 powr of_int (e - 52)
           in if 2 ^ 1024 \<le> r then PosInf else Fin r)"
proof -
  have x: "0 < x"
    using assms(1) by (rule less_le_trans[rotated]) simp
  have u: "ulp_exponent x = e - 52"
    using assms by (rule ulp_exponent_normal)
  define z where "z = x / 2 powr of_int (e - 52)"
  have "2 powr of_int e / 2 powr of_int (e - 52) \<le> z"
    unfolding z_def using assms(1) by (intro divide_right_mono) simp_all
  moreover have "2 powr of_int e / 2 powr of_int (e - 52) = (2::real) powr 52"
    by (simp add: powr_diff[symmetric])
  ultimately have "1 \<le> z" by simp
  then have "1 \<le> z - 1 / 2 + 1 / 2" by simp
  have "\<bar>of_int (round_ne z) - z\<bar> \<le> 1 / 2"
    by (rule round_ne_error)
  with \<open>1 \<le> z\<close> have "0 < (of_int (round_ne z) :: real)"
    by linarith
  then have r: "0 < of_int (round_ne z) * (2::real) powr of_int (e - 52)"
    by simp
  have "round_magnitude x = of_int (round_ne z) * 2 powr of_int (e - 52)"
    by (simp add: round_magnitude_def u z_def)
  then show ?thesis
    using x r by (simp add: round_double_def Let_def z_def)
qed

lemma two_powr_minus_nat: "2 powr of_int (- int k) = 1 / (2::real) ^ k"
proof -
  have "2 powr of_int (- int k) = (2::real) powr - real k"
    by (simp only: of_int_minus of_int_of_nat_eq)
  also have "\<dots> = 1 / 2 powr real k"
    by (simp only: powr_minus divide_inverse mult_1)
  also have "\<dots> = 1 / 2 ^ k"
    by (simp only: powr_realpow zero_less_numeral)
  finally show ?thesis .
qed

lemma two_powr_shift: "2 powr of_int (int n - int k) = (2::real) ^ n / 2 ^ k"
proof -
  have "2 powr of_int (int n - int k) = (2::real) powr (real n + of_int (- int k))"
    by simp
  also have "\<dots> = 2 powr real n * 2 powr of_int (- int k)"
    by (rule powr_add)
  also have "\<dots> = 2 ^ n / 2 ^ k"
    by (simp only: two_powr_minus_nat powr_realpow zero_less_numeral) simp
  finally show ?thesis .
qed

lemma round_double_scaled:
  assumes "2 ^ 52 \<le> x * 2 ^ k" "x * 2 ^ k < 2 ^ 53" "k \<le> 1074"
  shows "round_double x = Fin (of_int (round_ne (x * 2 ^ k)) / 2 ^ k)"
proof -
  have a: "2 powr of_int (int 52 - int k) \<le> x"
    unfolding two_powr_shift using assms(1) by (simp add: field_simps)
  have "int 52 - int k + 1 = int 53 - int k"
    by simp
  then have b: "x < 2 powr of_int (int 52 - int k + 1)"
    using assms(2) by (simp only: two_powr_shift) (simp add: field_simps)
  have c: "- 1022 \<le> int 52 - int k"
    using assms(3) by simp
  have d: "int 52 - int k - 52 = - int k"
    by simp
  define m where "m = round_ne (x * 2 ^ k)"
  have h: "\<bar>of_int m - x * 2 ^ k\<bar> \<le> 1 / 2"
    unfolding m_def by (rule round_ne_error)
  have "of_int m < (2::real) ^ 53 + 1"
    using h assms(2) by linarith
  then have "(of_int m :: real) < of_int (2 ^ 53 + 1)"
    by simp
  then have "m < 2 ^ 53 + 1"
    by (simp only: of_int_less_iff)
  then have "m \<le> 2 ^ 53"
    by simp
  then have "(of_int m :: real) \<le> of_int (2 ^ 53)"
    by (simp only: of_int_le_iff)
  then have m53: "(of_int m :: real) \<le> 2 ^ 53"
    by simp
  have "(1::real) \<le> 2 ^ 52"
    by simp
  then have m0: "0 \<le> (of_int m :: real)"
    using h assms(1) by linarith
  have "of_int m / 2 ^ k \<le> (of_int m :: real) / 1"
    using m0 by (intro divide_left_mono) simp_all
  with m53 have "of_int m / 2 ^ k \<le> (2::real) ^ 53"
    by simp
  also have "\<dots> < 2 ^ 1024" by simp
  finally have nb: "\<not> 2 ^ 1024 \<le> (of_int m :: real) / 2 ^ k"
    by (simp only: not_le)
  note r = round_double_normal[OF a b c, unfolded d two_powr_minus_nat Let_def]
  have s: "x / (1 / 2 ^ k) = x * 2 ^ k"
    by simp
  have v: "of_int m * (1 / 2 ^ k) = (of_int m :: real) / 2 ^ k"
    by simp
  show ?thesis
    using r nb unfolding s m_def[symmetric] v by (simp only: if_False)
qed






lemma double_sub_self: "(t::double) - t = Fin 0 \<or> t - t = NaN"
  by (cases t) (simp_all add: double_ops is_inf_def)

lemma double_div_zero_not_finite: "\<not> is_finite (x / Fin 0)"
  by (cases x) (simp_all add: double_ops)

lemma double_div_nan: "x / NaN = NaN"
  by (simp add: double_ops)

lemma double_div_sub_self: "\<not> is_finite (x / ((t::double) - t))"
  using double_sub_self[of t] by (auto simp add: double_div_zero_not_finite double_div_nan)

lemma init_coeffs_two:
  "length a = n \<Longrightarrow> length b = n \<Longrightarrow>
   init_coeffs n [a, b] = Inr \<lparr>rows = n, cols = Suc (Suc 0), coeff = (\<lambda>i j. [a, b] ! j ! i)\<rparr>"
  by (simp add: init_coeffs_def)

lemma safe_check_linear_curve:
  "safe_check Safe (linear_curve a b lo hi) =
     (if Safe \<and> lo > hi then Inl (invalid_argument ''Tmin should be inferior to Tmax'')
      else Inr (linear_curve a b lo hi))"
  by (simp add: safe_check_def linear_curve_def size_t_add_def int_cast_def)

lemma polynomial_C0_linear_curve:
  assumes "length init = length end0"
  shows "polynomial_C0 Safe init end0 min0 max0 =
         (if Safe \<and> min0 > max0 then Inl (invalid_argument ''Tmin should be inferior to Tmax'')
          else Inr (linear_curve init (div_vec (map2 (-) end0 init) (max0 - min0)) min0 max0))"
proof -
  let ?q = "div_vec (map2 (-) end0 init) (max0 - min0)"
  have "length ?q = length init"
    using assms by (simp add: div_vec_def)
  then have "init_coeffs (length init) [init, ?q] = Inr (coefficients (linear_curve init ?q min0 max0))"
    by (simp add: init_coeffs_two linear_curve_def)
  then have "polynomial_C0 Safe init end0 min0 max0 =
             safe_check Safe (linear_curve init ?q min0 max0)"
    using assms by (simp add: polynomial_C0_def sub_vec_def linear_curve_def)
  then show ?thesis
    by (simp only: safe_check_linear_curve)
qed

lemma col_linear_curve:
  assumes "length b = length a"
  shows "col (coefficients (linear_curve a b lo hi)) 0 = Inr a"
    and "col (coefficients (linear_curve a b lo hi)) (Suc 0) = Inr b"
proof -
  show "col (coefficients (linear_curve a b lo hi)) 0 = Inr a"
    by (simp add: col_def linear_curve_def map_nth)
  have "map ((!) b) [0..<length a] = b"
    using assms by (metis map_nth)
  then show "col (coefficients (linear_curve a b lo hi)) (Suc 0) = Inr b"
    by (simp add: col_def linear_curve_def)
qed

lemma col_in: "j < cols m \<Longrightarrow> col m j = Inr (map (\<lambda>i. coeff m i j) [0..<rows m])"
  by (simp add: col_def)

lemma add_vec_maps:
  "add_vec (map f xs) (map g xs) = Inr (map (\<lambda>x. f x + g x) xs)"
  by (simp add: add_vec_def map2_map_map)

lemma example_curve_inv: "polynomial_inv Safe example_curve" "non_empty example_curve"
  by (simp_all add: polynomial_inv_def non_empty_def example_curve_def size_mat_def)

section \<open>Evaluation and derivation of a polynomial\<close>

















section \<open>The constructors establish the invariant\<close>

lemma safe_check_inv:
  "safe_check Safe p = Inr q \<Longrightarrow> dim p = rows (coefficients p) \<Longrightarrow>
   cols (coefficients p) = degree p + 1 \<Longrightarrow> degree p < 2 ^ 31 \<Longrightarrow> polynomial_inv Safe q"
  by (auto simp add: safe_check_def polynomial_inv_def split: if_splits)

lemma polynomial_coefficients_inv:
  "polynomial_coefficients Safe m a b = Inr p \<Longrightarrow> 0 < cols m \<Longrightarrow> cols m \<le> 2 ^ 31 \<Longrightarrow>
   polynomial_inv Safe p"
  unfolding polynomial_coefficients_def
  by (erule safe_check_inv) (simp_all add: size_t_sub_def)

lemma polynomial_points_inv:
  "polynomial_points Safe pts a b = Inr p \<Longrightarrow> polynomial_inv Safe p"
  unfolding polynomial_points_def init_coeffs_def
  by (cases pts) (auto split: if_splits elim!: safe_check_inv simp add: size_t_sub_def)

lemma polynomial_C0_inv:
  "polynomial_C0 Safe init end0 a b = Inr p \<Longrightarrow> polynomial_inv Safe p"
  unfolding polynomial_C0_def init_coeffs_def sub_vec_def
  by (auto split: if_splits elim!: safe_check_inv)

lemma polynomial_C1_inv:
  "polynomial_C1 solve0 Safe init d_init end0 d_end a b = Inr p \<Longrightarrow> polynomial_inv Safe p"
  unfolding polynomial_C1_def solve_rows_def Let_def
  by (auto split: if_splits elim!: safe_check_inv simp add: size_t_add_def)

lemma polynomial_C2_inv:
  "polynomial_C2 pow0 solve0 Safe init d_init dd_init end0 d_end dd_end a b = Inr p \<Longrightarrow>
   polynomial_inv Safe p"
  unfolding polynomial_C2_def solve_rows_def Let_def
  by (auto split: if_splits elim!: safe_check_inv simp add: size_t_add_def)

section \<open>Derivatives beyond the degree\<close>

lemma deriv_poly_inv:
  assumes "polynomial_inv Safe p" "non_empty p"
  shows "polynomial_inv Safe (deriv_poly p)" "non_empty (deriv_poly p)"
  using assms
  by (auto simp add: polynomial_inv_def non_empty_def deriv_poly_def size_mat_def Zero_mat_def)

lemma deriv_poly_times: "T_min (deriv_poly p) = T_min p" "T_max (deriv_poly p) = T_max p"
  by (simp_all add: deriv_poly_def)

lemma safe_check_passes:
  assumes "Safe \<longrightarrow> \<not> T_min p > T_max p" "cols (coefficients p) = degree p + 1"
    "degree p < 2 ^ 31 - 1"
  shows "safe_check Safe p = Inr p"
proof -
  have "size_t_add (degree p) 1 = degree p + 1"
    using assms(3) by (simp add: size_t_add_def)
  moreover have "int_cast (degree p + 1) = int (degree p + 1)"
    using assms(3) by (intro int_cast_small) simp
  ultimately show ?thesis
    using assms(1,2) by (simp add: safe_check_def)
qed

lemma compute_derivate_Suc:
  assumes "polynomial_inv Safe p" "non_empty p"
  shows "compute_derivate Safe p (Suc k) = compute_derivate Safe (deriv_poly p) k"
proof -
  let ?c = "coefficients p"
  have ne: "check_if_not_empty p = None"
    using assms(2) by (simp add: check_if_not_empty_def non_empty_def)
  have c: "cols ?c = degree p + 1" "degree p < 2 ^ 31" "Safe \<longrightarrow> \<not> T_min p > T_max p"
    using assms(1) by (simp_all add: polynomial_inv_def)
  have dc: "deriv_coeff ?c = Inr (coefficients (deriv_poly p))"
    using c(1) by (simp add: deriv_coeff_def deriv_poly_def)
  have "polynomial_coefficients Safe (coefficients (deriv_poly p)) (T_min p) (T_max p) =
        safe_check Safe (deriv_poly p)"
    using c(1) by (simp add: polynomial_coefficients_def deriv_poly_def Zero_mat_def size_t_sub_def)
  also have "\<dots> = Inr (deriv_poly p)"
    using c by (intro safe_check_passes) (auto simp add: deriv_poly_def Zero_mat_def)
  finally show ?thesis
    by (simp add: ne dc)
qed

lemma deriv_poly_constant:
  "polynomial_inv Safe p \<Longrightarrow> degree p = 0 \<Longrightarrow>
   deriv_poly p = zero_curve (rows (coefficients p)) (T_min p) (T_max p)"
  by (simp add: deriv_poly_def zero_curve_def polynomial_inv_def)

lemma zero_curve_inv:
  "(Safe \<longrightarrow> \<not> a > b) \<Longrightarrow> polynomial_inv Safe (zero_curve r a b)"
  "0 < r \<Longrightarrow> non_empty (zero_curve r a b)"
  by (simp_all add: polynomial_inv_def non_empty_def zero_curve_def Zero_mat_def size_mat_def)

lemma compute_derivate_zero_curve:
  assumes "Safe \<longrightarrow> \<not> a > b" "0 < r"
  shows "compute_derivate Safe (zero_curve r a b) k = Inr (zero_curve r a b)"
proof (induction k)
  case 0
  then show ?case using assms(2)
    by (simp add: check_if_not_empty_def zero_curve_def Zero_mat_def size_mat_def)
next
  case (Suc k)
  have "deriv_poly (zero_curve r a b) = zero_curve r a b"
    by (simp add: deriv_poly_def zero_curve_def Zero_mat_def)
  then show ?case
    using Suc assms by (simp only: compute_derivate_Suc[OF zero_curve_inv])
qed

lemma compute_derivate_beyond:
  "degree p < k \<Longrightarrow> polynomial_inv Safe p \<Longrightarrow> non_empty p \<Longrightarrow>
   compute_derivate Safe p k = Inr (zero_curve (rows (coefficients p)) (T_min p) (T_max p))"
proof (induction k arbitrary: p)
  case 0
  then show ?case by simp
next
  case (Suc k)
  have r: "0 < rows (coefficients p)"
    using Suc.prems(3) by (simp add: non_empty_def size_mat_def)
  have s: "Safe \<longrightarrow> \<not> T_min p > T_max p"
    using Suc.prems(2) by (simp add: polynomial_inv_def)
  have step: "compute_derivate Safe p (Suc k) = compute_derivate Safe (deriv_poly p) k"
    using Suc.prems(2,3) by (rule compute_derivate_Suc)
  show ?case
  proof (cases "degree p = 0")
    case True
    then show ?thesis
      using Suc.prems(2) r s
      by (simp only: step deriv_poly_constant compute_derivate_zero_curve)
  next
    case False
    have "degree (deriv_poly p) < k"
      using False Suc.prems(1) by (simp add: deriv_poly_def)
    from Suc.IH[OF this deriv_poly_inv[OF Suc.prems(2,3)]]
    have "compute_derivate Safe (deriv_poly p) k =
          Inr (zero_curve (rows (coefficients (deriv_poly p))) (T_min p) (T_max p))"
      by (simp only: deriv_poly_times)
    moreover have "rows (coefficients (deriv_poly p)) = rows (coefficients p)"
      by (simp add: deriv_poly_def Zero_mat_def)
    ultimately show ?thesis
      by (simp only: step)
  qed
qed

lemma evaluate_zero_curve:
  assumes "0 < r" "Safe \<longrightarrow> \<not> (t < a \<or> t > b)"
  shows "evaluate Safe (zero_curve r a b) t = Inr (Zero_vec r)"
  using assms
  by (auto simp add: evaluate_def check_if_not_empty_def zero_curve_def Zero_mat_def size_mat_def
      col_def Zero_vec_def map_replicate_const int_cast_minus_one)

text \<open>
  Claim C8, as amended. For a non-empty polynomial curve of degree \<open>d\<close> and \<open>k > d\<close>,
  \<^verbatim>\<open>compute_derivate(k)\<close> raises no error and returns a curve of degree \<open>0\<close> whose single
  coefficient column is the zero vector; that curve evaluates to the zero vector at every \<open>t\<close>
  in non-safe mode, and at every \<open>t\<close> in \<open>[t_min, t_max]\<close> in safe mode. And
  \<^verbatim>\<open>compute_derivate(0)\<close> returns a curve equal to the original in every attribute.
\<close>

theorem compute_derivate_beyond_degree:
  assumes "polynomial_inv Safe p" "non_empty p"
  shows "(degree p < k \<longrightarrow>
           (\<exists>q. compute_derivate Safe p k = Inr q \<and> degree q = 0 \<and> cols (coefficients q) = 1 \<and>
                col (coefficients q) 0 = Inr (Zero_vec (dim p)) \<and>
                (\<forall>t. (Safe \<longrightarrow> T_min p \<le> t \<and> t \<le> T_max p) \<longrightarrow>
                     evaluate Safe q t = Inr (Zero_vec (dim p))))) \<and>
         compute_derivate Safe p 0 = Inr p"
proof -
  let ?z = "zero_curve (rows (coefficients p)) (T_min p) (T_max p)"
  have r: "0 < rows (coefficients p)" "dim p = rows (coefficients p)"
    using assms by (auto simp add: non_empty_def size_mat_def polynomial_inv_def)
  have z: "degree ?z = 0" "cols (coefficients ?z) = 1"
    "col (coefficients ?z) 0 = Inr (Zero_vec (dim p))"
    by (simp_all add: zero_curve_def Zero_mat_def col_def Zero_vec_def r map_replicate_const)
  have e: "evaluate Safe ?z t = Inr (Zero_vec (dim p))"
    if "Safe \<longrightarrow> T_min p \<le> t \<and> t \<le> T_max p" for t
  proof -
    have "Safe \<longrightarrow> \<not> (t < T_min p \<or> t > T_max p)"
      using that by (auto dest: double_le_not_less)
    then show ?thesis
      using r by (simp add: evaluate_zero_curve)
  qed
  have "compute_derivate Safe p 0 = Inr p"
    using assms(2) by (simp add: check_if_not_empty_def non_empty_def)
  moreover have "compute_derivate Safe p k = Inr ?z" if "degree p < k"
    using that assms by (rule compute_derivate_beyond)
  ultimately show ?thesis using z e by blast
qed

text \<open>The degree-2 example differentiated three times, in safe mode, evaluated at \<open>t = 1\<close>.\<close>

theorem compute_derivate_beyond_degree_witness:
  "polynomial_inv True example_curve \<and> non_empty example_curve \<and> degree example_curve < 3 \<and>
   (\<exists>q. compute_derivate True example_curve 3 = Inr q \<and> degree q = 0 \<and>
        cols (coefficients q) = 1 \<and> col (coefficients q) 0 = Inr [0, 0] \<and>
        evaluate True q 1 = Inr [0, 0]) \<and>
   compute_derivate True example_curve 0 = Inr example_curve"
proof -
  have h: "polynomial_inv True example_curve" "non_empty example_curve"
    by (simp_all add: example_curve_inv)
  have d: "degree example_curve < 3" "dim example_curve = 2"
    "T_min example_curve \<le> 1 \<and> 1 \<le> T_max example_curve"
    by (simp_all add: example_curve_def one_double_def)
  have z: "Zero_vec 2 = [0, 0 :: double]"
    by (simp add: Zero_vec_def numeral_2_eq_2)
  from compute_derivate_beyond_degree[OF h, of 3] d z h show ?thesis
    by auto
qed

text \<open>
  Claim C8 as it was stated does not hold at every \<open>t\<close>: in safe mode the third derivative of
  the degree-2 example, the zero curve on \<open>[0, 2]\<close>, throws the range error at \<open>t = 3\<close>.
\<close>

theorem compute_derivate_beyond_degree_counterexample:
  "degree example_curve < 3 \<and>
   compute_derivate True example_curve 3 = Inr (zero_curve 2 (Fin 0) (Fin 2)) \<and>
   evaluate True (zero_curve 2 (Fin 0) (Fin 2)) (Fin 3) =
     Inl (invalid_argument
       ''error in polynomial : time t to evaluate should be in range [Tmin, Tmax] of the curve'')"
proof -
  have "compute_derivate True example_curve 3 =
        Inr (zero_curve (rows (coefficients example_curve)) (T_min example_curve)
          (T_max example_curve))"
    by (rule compute_derivate_beyond) (simp_all add: example_curve_inv, simp add: example_curve_def)
  then show ?thesis
    by (simp add: example_curve_def evaluate_def check_if_not_empty_def zero_curve_def
        Zero_mat_def size_mat_def)
qed

section \<open>The claims about the constructors\<close>

text \<open>
  Claim C10. \<^verbatim>\<open>safe_check\<close> throws only in safe mode, and only when \<open>t_min\<close> is strictly above
  \<open>t_max\<close> or the number of columns is not \<^verbatim>\<open>int(degree_ + 1)\<close>; the constructor from the
  boundary condition C0 assembles two columns at degree 1, so with points of one dimension
  it throws exactly when it is in safe mode and \<open>t_min > t_max\<close>, and then the error of the
  times. With \<open>t_min = t_max = t\<close> it returns a curve of degree 1 in both safe modes, whose
  column 0 is \<open>init\<close> and whose column 1 is the quotient of \<open>end - init\<close> by \<open>t - t\<close>, taken
  entry by entry with no guard: no entry of it is finite.
\<close>

theorem polynomial_C0_equal_times:
  assumes "length init = length endpt"
  shows "((\<exists>e. safe_check Safe c = Inl e) \<longleftrightarrow>
            Safe \<and> (T_min c > T_max c \<or>
              int (cols (coefficients c)) \<noteq> int_cast (size_t_add (degree c) 1))) \<and>
         ((\<exists>e. polynomial_C0 Safe init endpt tmin tmax = Inl e) \<longleftrightarrow> Safe \<and> tmin > tmax) \<and>
         (\<forall>e. polynomial_C0 Safe init endpt tmin tmax = Inl e \<longrightarrow>
              e = invalid_argument ''Tmin should be inferior to Tmax'') \<and>
         (\<exists>p. polynomial_C0 Safe init endpt t t = Inr p \<and> degree p = 1 \<and>
              T_min p = t \<and> T_max p = t \<and> col (coefficients p) 0 = Inr init \<and>
              col (coefficients p) 1 = Inr (map2 (\<lambda>e i. (e - i) / (t - t)) endpt init) \<and>
              list_all (\<lambda>x. \<not> is_finite x) (map2 (\<lambda>e i. (e - i) / (t - t)) endpt init))"
proof (intro conjI)
  show "(\<exists>e. safe_check Safe c = Inl e) \<longleftrightarrow>
          Safe \<and> (T_min c > T_max c \<or>
            int (cols (coefficients c)) \<noteq> int_cast (size_t_add (degree c) 1))"
    by (simp add: safe_check_def)
  show "(\<exists>e. polynomial_C0 Safe init endpt tmin tmax = Inl e) \<longleftrightarrow> Safe \<and> tmin > tmax"
    using assms by (simp add: polynomial_C0_linear_curve)
  show "\<forall>e. polynomial_C0 Safe init endpt tmin tmax = Inl e \<longrightarrow>
              e = invalid_argument ''Tmin should be inferior to Tmax''"
    using assms by (simp add: polynomial_C0_linear_curve)
  define q where "q = map2 (\<lambda>e i. (e - i) / (t - t)) endpt init"
  have dq: "div_vec (map2 (-) endpt init) (t - t) = q"
    by (simp add: div_vec_def split_def q_def)
  have lq: "length q = length init"
    using assms by (simp add: q_def)
  have "polynomial_C0 Safe init endpt t t = Inr (linear_curve init q t t)"
    using assms by (simp add: polynomial_C0_linear_curve double_less_irrefl dq)
  moreover have "degree (linear_curve init q t t) = 1" "T_min (linear_curve init q t t) = t"
    "T_max (linear_curve init q t t) = t"
    by (simp_all add: linear_curve_def)
  moreover have "col (coefficients (linear_curve init q t t)) 0 = Inr init"
    "col (coefficients (linear_curve init q t t)) 1 = Inr q"
    using col_linear_curve[OF lq] by simp_all
  moreover have "list_all (\<lambda>x. \<not> is_finite x) q"
    by (simp add: q_def list_all_iff double_div_sub_self split_def)
  ultimately show "\<exists>p. polynomial_C0 Safe init endpt t t = Inr p \<and> degree p = 1 \<and>
              T_min p = t \<and> T_max p = t \<and> col (coefficients p) 0 = Inr init \<and>
              col (coefficients p) 1 = Inr (map2 (\<lambda>e i. (e - i) / (t - t)) endpt init) \<and>
              list_all (\<lambda>x. \<not> is_finite x) (map2 (\<lambda>e i. (e - i) / (t - t)) endpt init)"
    unfolding q_def[symmetric] by blast
qed

text \<open>
  In safe mode: the degree-2 example passes \<^verbatim>\<open>safe_check\<close>; from \<open>(0, 0)\<close> to \<open>(2, 4)\<close> the
  constructor returns on \<open>[1, 1]\<close> and throws on \<open>[2, 1]\<close>; and from \<open>(0, 0)\<close> to \<open>(2, 0)\<close> on
  \<open>[1, 1]\<close> its column 1 is \<open>(inf, NaN)\<close>, the quotients \<open>2 / 0\<close> and \<open>0 / 0\<close>.
\<close>

theorem polynomial_C0_equal_times_witness:
  "length [0, 0 :: double] = length [Fin 2, Fin 4] \<and>
   \<not> (\<exists>e. safe_check True example_curve = Inl e) \<and>
   \<not> (\<exists>e. polynomial_C0 True [0, 0] [Fin 2, Fin 4] 1 1 = Inl e) \<and>
   (\<exists>e. polynomial_C0 True [0, 0] [Fin 2, Fin 4] (Fin 2) 1 = Inl e) \<and>
   (\<exists>p. polynomial_C0 True [0, 0] [Fin 2, 0] 1 1 = Inr p \<and> degree p = 1 \<and>
        T_min p = 1 \<and> T_max p = 1 \<and> col (coefficients p) 0 = Inr [0, 0] \<and>
        col (coefficients p) 1 = Inr [PosInf, NaN])"
proof -
  have l: "length [0, 0 :: double] = length [Fin 2, Fin 4]"
    "length [0, 0 :: double] = length [Fin 2, 0 :: double]"
    by simp_all
  have q: "map2 (\<lambda>e i. (e - i) / ((1::double) - 1)) [Fin 2, 0] [0, 0] = [PosInf, NaN]"
    by (simp add: double_ops)
  have c: "\<not> (1::double) > 1" "Fin 2 > (1::double)"
    by (simp_all add: one_double_def)
  have x: "\<not> (True \<and> (T_min example_curve > T_max example_curve \<or>
      int (cols (coefficients example_curve)) \<noteq> int_cast (size_t_add (degree example_curve) 1)))"
    by (simp add: example_curve_def size_t_add_def int_cast_def)
  note s = polynomial_C0_equal_times[OF l(1), of True example_curve 1 1 1, THEN conjunct1]
  note a = polynomial_C0_equal_times[OF l(1), of True example_curve 1 1 1,
      THEN conjunct2, THEN conjunct1]
  note b = polynomial_C0_equal_times[OF l(1), of True example_curve "Fin 2" 1 1,
      THEN conjunct2, THEN conjunct1]
  note d = polynomial_C0_equal_times[OF l(2), of True example_curve 1 1 1,
      THEN conjunct2, THEN conjunct2, THEN conjunct2]
  have 0: "\<not> (\<exists>e. safe_check True example_curve = Inl e)"
    using s x by (simp only: simp_thms)
  have 1: "\<not> (\<exists>e. polynomial_C0 True [0, 0] [Fin 2, Fin 4] 1 1 = Inl e)"
    using a c(1) by (simp only: simp_thms)
  have 2: "\<exists>e. polynomial_C0 True [0, 0] [Fin 2, Fin 4] (Fin 2) 1 = Inl e"
    using b c(2) by (simp only: simp_thms)
  have 3: "\<exists>p. polynomial_C0 True [0, 0] [Fin 2, 0] 1 1 = Inr p \<and> degree p = 1 \<and>
        T_min p = 1 \<and> T_max p = 1 \<and> col (coefficients p) 0 = Inr [0, 0] \<and>
        col (coefficients p) 1 = Inr [PosInf, NaN]"
    using d unfolding q by (elim exE conjE, intro exI conjI)
  show ?thesis
    by (intro conjI l(1) 0 1 2 3)
qed

text \<open>
  Claim C6, as amended. The constructors from the boundary conditions C0, C1 and C2 throw
  \<^verbatim>\<open>invalid_argument\<close> whenever a boundary input (\<open>end\<close>, \<open>d_init\<close>, \<open>d_end\<close>, \<open>dd_init\<close>, \<open>dd_end\<close>)
  has a dimension other than that of \<open>init\<close>. Both safe modes, whatever Eigen's inversion
  returns.
\<close>

theorem boundary_constructors_validate_dimensions:
  "(length endpt \<noteq> length init \<longrightarrow>
      polynomial_C0 Safe init endpt tmin tmax =
        Inl (invalid_argument ''init and end points must have the same dimensions.'')) \<and>
   (length endpt \<noteq> length init \<or> length d_init \<noteq> length init \<or> length d_end \<noteq> length init \<longrightarrow>
      (\<exists>m. polynomial_C1 solve_of Safe init d_init endpt d_end tmin tmax =
             Inl (invalid_argument m))) \<and>
   (length endpt \<noteq> length init \<or> length d_init \<noteq> length init \<or> length d_end \<noteq> length init \<or>
    length dd_init \<noteq> length init \<or> length dd_end \<noteq> length init \<longrightarrow>
      (\<exists>m. polynomial_C2 pow_of solve_of Safe init d_init dd_init endpt d_end dd_end tmin tmax =
             Inl (invalid_argument m)))"
proof (intro conjI impI)
  assume "length endpt \<noteq> length init"
  then show "polynomial_C0 Safe init endpt tmin tmax =
        Inl (invalid_argument ''init and end points must have the same dimensions.'')"
    by (auto simp add: polynomial_C0_def)
next
  assume "length endpt \<noteq> length init \<or> length d_init \<noteq> length init \<or>
          length d_end \<noteq> length init"
  then show "\<exists>m. polynomial_C1 solve_of Safe init d_init endpt d_end tmin tmax =
             Inl (invalid_argument m)"
    by (auto simp add: polynomial_C1_def)
next
  assume "length endpt \<noteq> length init \<or> length d_init \<noteq> length init \<or>
          length d_end \<noteq> length init \<or> length dd_init \<noteq> length init \<or>
          length dd_end \<noteq> length init"
  then show "\<exists>m. polynomial_C2 pow_of solve_of Safe init d_init dd_init endpt d_end dd_end tmin tmax =
             Inl (invalid_argument m)"
    by (auto simp add: polynomial_C2_def)
qed

text \<open>Three mismatches: \<open>end\<close> in C0, \<open>d_init\<close> in C1 and \<open>dd_end\<close> in C2.\<close>

theorem boundary_constructors_validate_dimensions_witness:
  "length [1, Fin 2] \<noteq> length [0 :: double] \<and>
   polynomial_C0 True [0] [1, Fin 2] 0 1 =
     Inl (invalid_argument ''init and end points must have the same dimensions.'') \<and>
   (\<exists>m. polynomial_C1 (\<lambda>m bc. bc) True [0] [0, 0] [1] [0] 0 1 = Inl (invalid_argument m)) \<and>
   (\<exists>m. polynomial_C2 (\<lambda>T n. T) (\<lambda>m bc. bc) False [0] [0] [0] [1] [0] [0, 0] 0 1 =
        Inl (invalid_argument m))"
  using boundary_constructors_validate_dimensions[where init = "[0]" and endpt = "[1, Fin 2]"
      and Safe = True and tmin = 0 and tmax = 1]
    boundary_constructors_validate_dimensions[where init = "[0]" and d_init = "[0, 0]"
      and endpt = "[1]" and d_end = "[0]" and solve_of = "\<lambda>m bc. bc" and Safe = True
      and tmin = 0 and tmax = 1]
    boundary_constructors_validate_dimensions[where init = "[0]" and d_init = "[0]"
      and dd_init = "[0]" and endpt = "[1]" and d_end = "[0]" and dd_end = "[0, 0]"
      and pow_of = "\<lambda>T n. T" and solve_of = "\<lambda>m bc. bc" and Safe = False
      and tmin = 0 and tmax = 1]
  by simp

text \<open>
  Claim C6 as it was stated does not hold of every constructor: the constructor from a
  container of points does not compare their sizes, and points of sizes 2 and 1 end in
  Eigen's assertion, not in \<^verbatim>\<open>invalid_argument\<close>, in both safe modes.
\<close>

theorem constructors_validate_counterexample:
  "polynomial_points False [[1, Fin 2], [Fin 3]] 0 1 = Inl eigen_assert \<and>
   polynomial_points True [[1, Fin 2], [Fin 3]] 0 1 = Inl eigen_assert"
  by (simp add: polynomial_points_def init_coeffs_def)

section \<open>The claims about the range and the emptiness checks\<close>




text \<open>
  Claim C7. Evaluating a curve built by the empty constructor, through \<^verbatim>\<open>operator()\<close> or
  \<^verbatim>\<open>derivate\<close>, throws the emptiness error in both safe modes and at every \<open>t\<close>, inside the
  range or not: the check comes before the range check and before any arithmetic.
\<close>

theorem evaluate_empty_curve:
  "evaluate Safe (polynomial_empty d) t =
     Inl (runtime_error
       ''Error in polynomial : there is no coefficients set / did you use empty constructor ?'') \<and>
   derivate Safe (polynomial_empty d) t order =
     Inl (runtime_error
       ''Error in polynomial : there is no coefficients set / did you use empty constructor ?'')"
  by (simp add: evaluate_def derivate_def check_if_not_empty_def polynomial_empty_def size_mat_def)

theorem evaluate_empty_curve_witness:
  "evaluate True (polynomial_empty 7) (Fin 5) =
     Inl (runtime_error
       ''Error in polynomial : there is no coefficients set / did you use empty constructor ?'') \<and>
   derivate False (polynomial_empty 7) (Fin 5) 2 =
     Inl (runtime_error
       ''Error in polynomial : there is no coefficients set / did you use empty constructor ?'')"
  using evaluate_empty_curve[of True 7 "Fin 5" 2] evaluate_empty_curve[of False 7 "Fin 5" 2] by simp

section \<open>The claims about linear variables\<close>









lemma norm_one_by_one: "norm_mat \<lparr>rows = Suc 0, cols = Suc 0, coeff = f\<rparr> = \<bar>f 0 0\<bar>"
  by (simp add: norm_mat_def)

lemma norm_singleton: "norm_vec [x] = \<bar>x\<bar>"
  by (simp add: norm_vec_def)

text \<open>
  Claim C1 does not hold of the code. \<^verbatim>\<open>Zero(dim)\<close> is built by the mixed constructor from the
  identity matrix: it is not flagged zero and its linear part is not zero. At dimension 1,
  with \<open>x\<close> the constant \<open>1\<close>: \<^verbatim>\<open>Zero(1)\<close> and the default-constructed zero element are not
  approximately equal (in the other order the difference breaks Eigen's size precondition);
  \<^verbatim>\<open>Zero(1) + x\<close> is not approximately \<open>x\<close> and \<^verbatim>\<open>x - x\<close> is not approximately \<^verbatim>\<open>Zero(1)\<close>;
  and with \<^verbatim>\<open>Zero()\<close>, of size 0, neither comparison returns.
\<close>

theorem Zero_is_not_neutral:
  "isApprox (linear_variable_Zero 1) linear_variable_default dummy_precision = Inr False \<and>
   isApprox linear_variable_default (linear_variable_Zero 1) dummy_precision = Inl eigen_assert \<and>
   isApprox_of (operator_plus (linear_variable_Zero 1) (linear_variable_constant [1]))
     (linear_variable_constant [1]) dummy_precision = Inr False \<and>
   isApprox_of (operator_plus (linear_variable_Zero 0) (linear_variable_constant [1]))
     (linear_variable_constant [1]) dummy_precision = Inl eigen_assert \<and>
   isApprox_of (operator_minus (linear_variable_constant [1]) (linear_variable_constant [1]))
     (linear_variable_Zero 1) dummy_precision = Inr False \<and>
   isApprox_of (operator_minus (linear_variable_constant [1]) (linear_variable_constant [1]))
     (linear_variable_Zero 0) dummy_precision = Inl eigen_assert"
  by (simp add: isApprox_of_def isApprox_def operator_minus_def operator_plus_def
      minus_assign_def plus_assign_def linear_variable_Zero_def linear_variable_mixed_def
      linear_variable_default_def linear_variable_constant_def isZero_def norm_lv_def
      Identity_mat_def Zero_mat_def Zero_vec_def add_mat_def sub_mat_def add_vec_def sub_vec_def
      same_size_def norm_one_by_one norm_singleton dummy_precision_def)

end
